theory Spec2Isabelle
  imports Main "HOL-Library.AList"
begin

section \<open>JavaScript values\<close>

text \<open>
  A JavaScript string is a sequence of UTF-16 code units; a code unit is modelled as a
  natural number (below 65536 in every real string; nothing below depends on the bound).
  \<open>JS ''abc''\<close> is the JavaScript string with the ASCII characters \<open>abc\<close>.
\<close>

type_synonym jsstring = "nat list"

abbreviation U :: "char \<Rightarrow> nat" where
  "U c \<equiv> of_char c"

abbreviation JS :: "string \<Rightarrow> jsstring" where
  "JS s \<equiv> map U s"

text \<open>
  A Number is an IEEE double. \<open>Dec s m e\<close> is the double nearest (round to nearest, ties
  to even) to the decimal \<open>(-1)^s * m * 10^e\<close>: every finite double is such a value, and
  so are the infinities (a decimal beyond the double range) and both zeros.
\<close>

datatype jsnum = Dec bool nat int | NaN

text \<open>
  The values of the model: the primitive values, arrays, and plain objects, whose
  properties are listed with their values in the order of enumeration, each key once.
  Functions, symbols and objects with accessors or a prototype of their own are not
  modelled: \<open>request\<close> handles strings and values made by \<open>JSON.parse\<close> only.
\<close>

datatype jsval =
    JUndefined
  | JNull
  | JBool bool
  | JNumber jsnum
  | JBigInt int
  | JString jsstring
  | JArray "jsval list"
  | JObject "(jsstring \<times> jsval) list"

section \<open>The integer-rewriting prepass: \<open>stringifyInts\<close>\<close>

definition is_digit :: "nat \<Rightarrow> bool" where
  "is_digit c = (U CHR ''0'' \<le> c \<and> c \<le> U CHR ''9'')"

definition is_line_terminator :: "nat \<Rightarrow> bool" where
  "is_line_terminator c = (c = 0x0A \<or> c = 0x0D \<or> c = 0x2028 \<or> c = 0x2029)"

text \<open>
  The lookbehind \<^verbatim>\<open>(?<=".+?": )\<close> at a position, on the text before the position in
  reverse: the three characters \<^verbatim>\<open>": \<close> end there, before them stand one or more
  characters other than line terminators (\<^verbatim>\<open>.+?\<close>), and before those a double quote.
\<close>

definition lookbehind :: "jsstring \<Rightarrow> bool" where
  "lookbehind rb =
     (case rb of
        c3 # c2 # c1 # r \<Rightarrow>
          if c3 = U CHR '' '' \<and> c2 = U CHR '':'' \<and> c1 = U CHR 0x22
          then (case takeWhile (\<lambda>c. \<not> is_line_terminator c) r of
                  [] \<Rightarrow> False
                | x # xs \<Rightarrow> U CHR 0x22 \<in> set xs)
          else False
      | _ \<Rightarrow> False)"

text \<open>\<^verbatim>\<open>$\<close> under the \<^verbatim>\<open>m\<close> flag: the end of the input or the position before a line terminator.\<close>

definition at_eol :: "jsstring \<Rightarrow> bool" where
  "at_eol s = (case s of [] \<Rightarrow> True | c # _ \<Rightarrow> is_line_terminator c)"

text \<open>\<^verbatim>\<open>[^0-9]?$\<close>: one character that is not a digit (a line terminator is one), or none.\<close>

definition nondigit_opt_eol :: "jsstring \<Rightarrow> bool" where
  "nondigit_opt_eol s =
     ((case s of [] \<Rightarrow> False | c # t \<Rightarrow> \<not> is_digit c \<and> at_eol t) \<or> at_eol s)"

text \<open>The lookahead \<^verbatim>\<open>(?=,?[^0-9]?$)\<close> on the text after the digits.\<close>

definition lookahead :: "jsstring \<Rightarrow> bool" where
  "lookahead s =
     ((case s of [] \<Rightarrow> False | c # t \<Rightarrow> c = U CHR '','' \<and> nondigit_opt_eol t)
      \<or> nondigit_opt_eol s)"

text \<open>
  A match of the whole expression starting at a position: \<^verbatim>\<open>(\d+)\<close> is greedy, so the
  longest run of digits is tried first and shorter ones on backtracking. The result is
  the length of the digits matched.
\<close>

definition match_here :: "jsstring \<Rightarrow> jsstring \<Rightarrow> nat option" where
  "match_here rb s =
     (if lookbehind rb
      then find (\<lambda>k. lookahead (drop k s)) (rev [1 ..< Suc (length (takeWhile is_digit s))])
      else None)"

lemma find_Some_set: "find P xs = Some x \<Longrightarrow> x \<in> set xs \<and> P x"
  by (induction xs) (auto split: if_splits)

lemma match_here_pos: "match_here rb s = Some k \<Longrightarrow> 0 < k"
  by (auto simp: match_here_def dest!: find_Some_set split: if_splits)

text \<open>
  \<^verbatim>\<open>replaceAll\<close> with the \<^verbatim>\<open>g\<close> flag: the leftmost match from the current position is
  replaced by \<^verbatim>\<open>"$1n"\<close> and the search goes on after it; the lookbehind still sees the
  original text. \<open>rb\<close> is the text already passed, in reverse.
\<close>

function replace_ints :: "jsstring \<Rightarrow> jsstring \<Rightarrow> jsstring" where
  "replace_ints rb [] = []"
| "replace_ints rb (c # cs) =
     (case match_here rb (c # cs) of
        None \<Rightarrow> c # replace_ints (c # rb) cs
      | Some k \<Rightarrow>
          U CHR 0x22 # take k (c # cs) @ JS ''n\"'' @
          replace_ints (rev (take k (c # cs)) @ rb) (drop k (c # cs)))"
  by pat_completeness auto
termination
  by (relation "measure (\<lambda>(rb, s). length s)") (auto dest: match_here_pos)

definition stringifyInts :: "jsstring \<Rightarrow> jsstring" where
  "stringifyInts json = replace_ints [] json"


section \<open>\<open>JSON.parse\<close>\<close>

datatype token =
    TLBrace | TRBrace | TLBrack | TRBrack | TColon | TComma
  | TString jsstring | TNumber jsnum | TTrue | TFalse | TNull

definition is_ws :: "nat \<Rightarrow> bool" where
  "is_ws c = (c = 0x20 \<or> c = 0x09 \<or> c = 0x0A \<or> c = 0x0D)"

definition digit_val :: "nat \<Rightarrow> nat" where
  "digit_val c = c - U CHR ''0''"

definition nat_of_digits :: "jsstring \<Rightarrow> nat" where
  "nat_of_digits ds = foldl (\<lambda>a c. 10 * a + digit_val c) 0 ds"

definition hex_val :: "nat \<Rightarrow> nat option" where
  "hex_val c =
     (if is_digit c then Some (c - U CHR ''0'')
      else if U CHR ''a'' \<le> c \<and> c \<le> U CHR ''f'' then Some (c - U CHR ''a'' + 10)
      else if U CHR ''A'' \<le> c \<and> c \<le> U CHR ''F'' then Some (c - U CHR ''A'' + 10)
      else None)"

definition hex4 :: "nat \<Rightarrow> nat \<Rightarrow> nat \<Rightarrow> nat \<Rightarrow> nat option" where
  "hex4 a b c d =
     (case (hex_val a, hex_val b, hex_val c, hex_val d) of
        (Some w, Some x, Some y, Some z) \<Rightarrow> Some (((w * 16 + x) * 16 + y) * 16 + z)
      | _ \<Rightarrow> None)"

text \<open>The character a single-letter escape stands for.\<close>

definition unescape :: "nat \<Rightarrow> nat option" where
  "unescape e =
     (if e = U CHR 0x22 \<or> e = U CHR 0x5C \<or> e = U CHR ''/'' then Some e
      else if e = U CHR ''b'' then Some 0x08
      else if e = U CHR ''f'' then Some 0x0C
      else if e = U CHR ''n'' then Some 0x0A
      else if e = U CHR ''r'' then Some 0x0D
      else if e = U CHR ''t'' then Some 0x09
      else None)"

text \<open>
  The rest of a string literal after its opening quote: the characters up to the closing
  quote, with the escapes resolved, and the text after the closing quote. A control
  character (below U+0020), an unknown escape or a missing closing quote is a syntax
  error. \<open>acc\<close> holds the characters read so far, in reverse.
\<close>

fun lex_string :: "jsstring \<Rightarrow> jsstring \<Rightarrow> (jsstring \<times> jsstring) option" where
  "lex_string acc [] = None"
| "lex_string acc (c # cs) =
     (if c = U CHR 0x22 then Some (rev acc, cs)
      else if c = U CHR 0x5C then
        (case cs of
           [] \<Rightarrow> None
         | e # r \<Rightarrow>
             if e = U CHR ''u'' then
               (case r of
                  h1 # h2 # h3 # h4 # r' \<Rightarrow>
                    (case hex4 h1 h2 h3 h4 of
                       None \<Rightarrow> None
                     | Some u \<Rightarrow> lex_string (u # acc) r')
                | _ \<Rightarrow> None)
             else
               (case unescape e of
                  None \<Rightarrow> None
                | Some x \<Rightarrow> lex_string (x # acc) r))
      else if c < 0x20 then None
      else lex_string (c # acc) cs)"

text \<open>The fraction \<^verbatim>\<open>(\.[0-9]+)?\<close> and the exponent \<^verbatim>\<open>([eE][+-]?[0-9]+)?\<close> of a number.\<close>

definition lex_frac :: "jsstring \<Rightarrow> (jsstring \<times> jsstring) option" where
  "lex_frac s =
     (case s of
        [] \<Rightarrow> Some ([], s)
      | c # t \<Rightarrow>
          if c = U CHR ''.'' then
            (if takeWhile is_digit t = [] then None
             else Some (takeWhile is_digit t, dropWhile is_digit t))
          else Some ([], s))"

definition lex_exp :: "jsstring \<Rightarrow> (int \<times> jsstring) option" where
  "lex_exp s =
     (case s of
        [] \<Rightarrow> Some (0, s)
      | c # t \<Rightarrow>
          if c = U CHR ''e'' \<or> c = U CHR ''E'' then
            (let neg = (case t of [] \<Rightarrow> False | d # _ \<Rightarrow> d = U CHR ''-'');
                 signed = (case t of [] \<Rightarrow> False | d # _ \<Rightarrow> d = U CHR ''-'' \<or> d = U CHR ''+'');
                 t' = (if signed then tl t else t)
             in if takeWhile is_digit t' = [] then None
                else Some ((if neg then - 1 else 1) * int (nat_of_digits (takeWhile is_digit t')),
                           dropWhile is_digit t'))
          else Some (0, s))"

text \<open>
  A number \<^verbatim>\<open>-?(0|[1-9][0-9]*)(\.[0-9]+)?([eE][+-]?[0-9]+)?\<close> at the head of the text: the
  Number it denotes (mantissa and exponent as written) and the text after it.
\<close>

definition lex_number :: "jsstring \<Rightarrow> (jsnum \<times> jsstring) option" where
  "lex_number s =
     (let neg = (case s of [] \<Rightarrow> False | c # _ \<Rightarrow> c = U CHR ''-'');
          s1 = (if neg then tl s else s);
          ip = takeWhile is_digit s1
      in if ip = [] \<or> (1 < length ip \<and> hd ip = U CHR ''0'') then None
         else
           (case lex_frac (dropWhile is_digit s1) of
              None \<Rightarrow> None
            | Some (fp, s3) \<Rightarrow>
                (case lex_exp s3 of
                   None \<Rightarrow> None
                 | Some (ex, s4) \<Rightarrow>
                     Some (Dec neg (nat_of_digits (ip @ fp)) (ex - int (length fp)), s4))))"

lemma lex_string_shorter:
  "lex_string acc s = Some (x, rest) \<Longrightarrow> length rest < length s"
proof (induction acc s rule: lex_string.induct)
  case (1 acc)
  then show ?case by simp
next
  case (2 acc c cs)
  show ?case
  proof (cases "c = U CHR 0x22")
    case True
    with "2.prems" show ?thesis by simp
  next
    case quote: False
    show ?thesis
    proof (cases "c = U CHR 0x5C")
      case False
      with quote "2.prems" "2.IH"(3) show ?thesis
        by (auto split: if_splits)
    next
      case True
      with quote "2.prems" obtain e r where cs: "cs = e # r"
        by (cases cs) auto
      show ?thesis
      proof (cases "e = U CHR ''u''")
        case False
        with quote True cs "2.prems" "2.IH"(2) [of e r] show ?thesis
          by (auto split: option.splits)
      next
        case u: True
        with quote True cs "2.prems" obtain h1 h2 h3 h4 r' v where
          r: "r = h1 # h2 # h3 # h4 # r'" and h: "hex4 h1 h2 h3 h4 = Some v" and
          l: "lex_string (v # acc) r' = Some (x, rest)"
          by (auto split: list.splits option.splits)
        from "2.IH"(1) [OF quote True cs u r refl refl refl h l] r cs show ?thesis
          by simp
      qed
    qed
  qed
qed

lemma lex_frac_shorter: "lex_frac s = Some (x, rest) \<Longrightarrow> length rest \<le> length s"
  by (auto simp: lex_frac_def split: list.splits if_splits
           intro: le_trans [OF length_dropWhile_le])

lemma lex_exp_shorter: "lex_exp s = Some (x, rest) \<Longrightarrow> length rest \<le> length s"
proof (cases s)
  case Nil
  assume "lex_exp s = Some (x, rest)"
  with Nil show ?thesis by (simp add: lex_exp_def)
next
  case (Cons c t)
  assume h: "lex_exp s = Some (x, rest)"
  have "length (dropWhile is_digit (tl t)) \<le> length t"
    by (rule le_trans [OF length_dropWhile_le]) simp
  moreover have "length (dropWhile is_digit t) \<le> length t"
    by (rule length_dropWhile_le)
  ultimately show ?thesis
    using h Cons by (auto simp: lex_exp_def Let_def split: if_splits)
qed

lemma dropWhile_shorter:
  "takeWhile P s \<noteq> [] \<Longrightarrow> length (dropWhile P s) < length s"
  by (cases s) (auto intro: le_imp_less_Suc length_dropWhile_le split: if_splits)

lemma lex_number_shorter:
  assumes "lex_number s = Some (x, rest)"
  shows "length rest < length s"
proof -
  define s1 where "s1 = (if (case s of [] \<Rightarrow> False | c # _ \<Rightarrow> c = U CHR ''-'') then tl s else s)"
  from assms obtain fp s3 ex where
    ip: "takeWhile is_digit s1 \<noteq> []" and
    f: "lex_frac (dropWhile is_digit s1) = Some (fp, s3)" and
    e: "lex_exp s3 = Some (ex, rest)"
    by (auto simp: lex_number_def Let_def s1_def split: if_splits option.splits)
  have "length rest \<le> length s3" using e by (rule lex_exp_shorter)
  also have "\<dots> \<le> length (dropWhile is_digit s1)" using f by (rule lex_frac_shorter)
  also have "\<dots> < length s1" using ip by (rule dropWhile_shorter)
  also have "\<dots> \<le> length s" by (simp add: s1_def)
  finally show ?thesis .
qed

text \<open>
  The tokens of a JSON text, or \<open>None\<close> where \<open>JSON.parse\<close> throws a \<open>SyntaxError\<close> on a
  character.
\<close>

function lex :: "jsstring \<Rightarrow> token list option" where
  "lex [] = Some []"
| "lex (c # cs) =
     (if is_ws c then lex cs
      else if c = U CHR ''{'' then map_option ((#) TLBrace) (lex cs)
      else if c = U CHR ''}'' then map_option ((#) TRBrace) (lex cs)
      else if c = U CHR ''['' then map_option ((#) TLBrack) (lex cs)
      else if c = U CHR '']'' then map_option ((#) TRBrack) (lex cs)
      else if c = U CHR '':'' then map_option ((#) TColon) (lex cs)
      else if c = U CHR '','' then map_option ((#) TComma) (lex cs)
      else if c = U CHR 0x22 then
        (case lex_string [] cs of
           None \<Rightarrow> None
         | Some (s, rest) \<Rightarrow> map_option ((#) (TString s)) (lex rest))
      else if c = U CHR ''-'' \<or> is_digit c then
        (case lex_number (c # cs) of
           None \<Rightarrow> None
         | Some (n, rest) \<Rightarrow> map_option ((#) (TNumber n)) (lex rest))
      else if take 4 (c # cs) = JS ''true'' then map_option ((#) TTrue) (lex (drop 4 (c # cs)))
      else if take 5 (c # cs) = JS ''false'' then map_option ((#) TFalse) (lex (drop 5 (c # cs)))
      else if take 4 (c # cs) = JS ''null'' then map_option ((#) TNull) (lex (drop 4 (c # cs)))
      else None)"
  by pat_completeness auto
termination
proof (relation "measure length", goal_cases)
  case (9 c cs x2 s rest)
  then show ?case using lex_string_shorter [of "[]" cs s rest] by simp
next
  case (10 c cs x2 n rest)
  then show ?case using lex_number_shorter [of "c # cs" n rest] by simp
qed auto


text \<open>
  The properties of an object are listed in the order in which JavaScript enumerates
  them: the array indices (canonical numerals below \<open>2^32 - 1\<close>) first, in ascending
  order, then the other keys in the order of their creation. Setting a key that is
  present replaces its value in place.
\<close>

definition is_array_index :: "jsstring \<Rightarrow> bool" where
  "is_array_index k =
     (k \<noteq> [] \<and> list_all is_digit k \<and> (k = JS ''0'' \<or> hd k \<noteq> U CHR ''0'')
      \<and> nat_of_digits k < 2 ^ 32 - 1)"

fun insert_index :: "jsstring \<Rightarrow> jsval \<Rightarrow> (jsstring \<times> jsval) list \<Rightarrow> (jsstring \<times> jsval) list" where
  "insert_index k v [] = [(k, v)]"
| "insert_index k v ((k', v') # ms) =
     (if is_array_index k' \<and> nat_of_digits k' < nat_of_digits k
      then (k', v') # insert_index k v ms
      else (k, v) # (k', v') # ms)"

definition obj_put :: "(jsstring \<times> jsval) list \<Rightarrow> jsstring \<Rightarrow> jsval \<Rightarrow> (jsstring \<times> jsval) list" where
  "obj_put ms k v =
     (if k \<in> fst ` set ms then AList.update k v ms
      else if is_array_index k then insert_index k v ms
      else ms @ [(k, v)])"

text \<open>
  The parser reads the tokens one at a time and keeps the open arrays and objects on a
  stack: \<open>InArray vs\<close> is an array with the elements \<open>vs\<close> read so far, \<open>InObject ms k\<close> an
  object with the members \<open>ms\<close> whose key \<open>k\<close> awaits its value.
\<close>

datatype frame = InArray "jsval list" | InObject "(jsstring \<times> jsval) list" jsstring

datatype pstate =
    ExpectValue "frame list"
  | ArrayFirst "frame list"
  | ArrayNext "jsval list" "frame list"
  | ObjectFirst "frame list"
  | ObjectKey "(jsstring \<times> jsval) list" "frame list"
  | ExpectColon "(jsstring \<times> jsval) list" jsstring "frame list"
  | ObjectNext "(jsstring \<times> jsval) list" "frame list"
  | Finished jsval

text \<open>A value is complete: it is the whole text, an element of the array or the value of the pending key.\<close>

fun complete :: "jsval \<Rightarrow> frame list \<Rightarrow> pstate" where
  "complete v [] = Finished v"
| "complete v (InArray vs # st) = ArrayNext (vs @ [v]) st"
| "complete v (InObject ms k # st) = ObjectNext (obj_put ms k v) st"

text \<open>A token that starts a value.\<close>

fun start_value :: "token \<Rightarrow> frame list \<Rightarrow> pstate option" where
  "start_value (TString s) st = Some (complete (JString s) st)"
| "start_value (TNumber n) st = Some (complete (JNumber n) st)"
| "start_value TTrue st = Some (complete (JBool True) st)"
| "start_value TFalse st = Some (complete (JBool False) st)"
| "start_value TNull st = Some (complete JNull st)"
| "start_value TLBrack st = Some (ArrayFirst st)"
| "start_value TLBrace st = Some (ObjectFirst st)"
| "start_value _ st = None"

fun parse_step :: "pstate \<Rightarrow> token \<Rightarrow> pstate option" where
  "parse_step (ExpectValue st) t = start_value t st"
| "parse_step (ArrayFirst st) t =
     (if t = TRBrack then Some (complete (JArray []) st) else start_value t (InArray [] # st))"
| "parse_step (ArrayNext vs st) t =
     (if t = TComma then Some (ExpectValue (InArray vs # st))
      else if t = TRBrack then Some (complete (JArray vs) st)
      else None)"
| "parse_step (ObjectFirst st) t =
     (case t of
        TRBrace \<Rightarrow> Some (complete (JObject []) st)
      | TString k \<Rightarrow> Some (ExpectColon [] k st)
      | _ \<Rightarrow> None)"
| "parse_step (ObjectKey ms st) t =
     (case t of TString k \<Rightarrow> Some (ExpectColon ms k st) | _ \<Rightarrow> None)"
| "parse_step (ExpectColon ms k st) t =
     (if t = TColon then Some (ExpectValue (InObject ms k # st)) else None)"
| "parse_step (ObjectNext ms st) t =
     (if t = TComma then Some (ObjectKey ms st)
      else if t = TRBrace then Some (complete (JObject ms) st)
      else None)"
| "parse_step (Finished v) t = None"

fun parse_tokens :: "pstate \<Rightarrow> token list \<Rightarrow> jsval option" where
  "parse_tokens (Finished v) [] = Some v"
| "parse_tokens p [] = None"
| "parse_tokens p (t # ts) =
     (case parse_step p t of None \<Rightarrow> None | Some p' \<Rightarrow> parse_tokens p' ts)"

text \<open>\<open>JSON.parse\<close> without a reviver; \<open>None\<close> is the \<open>SyntaxError\<close> it throws.\<close>

definition json_parse :: "jsstring \<Rightarrow> jsval option" where
  "json_parse text = (case lex text of None \<Rightarrow> None | Some ts \<Rightarrow> parse_tokens (ExpectValue []) ts)"

section \<open>The reviver\<close>

text \<open>
  \<^verbatim>\<open>v.match(/(\d+)n/)\<close>: the first position from which a run of digits (the longest
  first) is followed by the letter n; the result is the digits, group 1 of the match.
\<close>

fun match_digits_n :: "jsstring \<Rightarrow> jsstring option" where
  "match_digits_n [] = None"
| "match_digits_n (c # cs) =
     (case find (\<lambda>k. take 1 (drop k (c # cs)) = JS ''n'')
             (rev [1 ..< Suc (length (takeWhile is_digit (c # cs)))]) of
        Some k \<Rightarrow> Some (take k (c # cs))
      | None \<Rightarrow> match_digits_n cs)"

text \<open>
  The reviver of \<open>request\<close>: a string with such a match becomes the BigInt of the
  digits, every other value is returned as it is.
\<close>

definition reviver :: "jsval \<Rightarrow> jsval" where
  "reviver v =
     (case v of
        JString s \<Rightarrow>
          (case match_digits_n s of
             Some ds \<Rightarrow> JBigInt (int (nat_of_digits ds))
           | None \<Rightarrow> v)
      | _ \<Rightarrow> v)"

text \<open>
  \<open>JSON.parse\<close> applies the reviver bottom-up: to the elements of an array and the
  members of an object first, then to the array or object itself.
\<close>

fun internalize :: "jsval \<Rightarrow> jsval" where
  "internalize (JArray vs) = reviver (JArray (map internalize vs))"
| "internalize (JObject ms) = reviver (JObject (map (\<lambda>(k, v). (k, internalize v)) ms))"
| "internalize v = reviver v"

text \<open>Lines 111 to 119 of \<open>request\<close>: the decoded body, or \<open>None\<close> for a \<open>SyntaxError\<close>.\<close>

definition decode :: "jsstring \<Rightarrow> jsval option" where
  "decode rawData = map_option internalize (json_parse (stringifyInts rawData))"


section \<open>Numbers as strings and as conditions\<close>

text \<open>The decimal numeral of a natural number.\<close>

function decimal :: "nat \<Rightarrow> jsstring" where
  "decimal n =
     (if n < 10 then [U CHR ''0'' + n]
      else decimal (n div 10) @ [U CHR ''0'' + n mod 10])"
  by pat_completeness auto
termination
  by (relation "measure id") auto

declare decimal.simps [simp del]

text \<open>
  A double other than NaN: a zero, an infinity, or \<open>Finite M E\<close>, the value \<open>M * 2^E\<close> with
  \<open>M < 2^53\<close> and \<open>-1074 \<le> E \<le> 971\<close>, where \<open>2^52 \<le> M\<close> unless \<open>E = -1074\<close>. The sign is kept
  apart.
\<close>

datatype double = Zero | Finite nat int | Infinite

function bit_length :: "nat \<Rightarrow> nat" where
  "bit_length n = (if n = 0 then 0 else Suc (bit_length (n div 2)))"
  by pat_completeness auto
termination
  by (relation "measure id") auto

declare bit_length.simps [simp del]

text \<open>The fraction \<open>(p / q) / b^x\<close>, as a numerator and a denominator.\<close>

definition shift :: "nat \<Rightarrow> nat \<Rightarrow> nat \<Rightarrow> int \<Rightarrow> nat \<times> nat" where
  "shift b p q x = (if 0 \<le> x then (p, q * b ^ nat x) else (p * b ^ nat (- x), q))"

text \<open>That fraction rounded down, and whether it is nearer to the next integer (a tie counts when the integer below is odd).\<close>

definition quotient :: "nat \<Rightarrow> nat \<Rightarrow> nat \<Rightarrow> int \<Rightarrow> nat" where
  "quotient b p q x = fst (shift b p q x) div snd (shift b p q x)"

definition rounds_up :: "nat \<Rightarrow> nat \<Rightarrow> nat \<Rightarrow> int \<Rightarrow> bool" where
  "rounds_up b p q x =
     (snd (shift b p q x) < 2 * (fst (shift b p q x) mod snd (shift b p q x))
      \<or> (2 * (fst (shift b p q x) mod snd (shift b p q x)) = snd (shift b p q x)
          \<and> odd (quotient b p q x)))"

text \<open>That fraction rounded to the nearest integer, a tie to the even one.\<close>

definition round_half_even :: "nat \<Rightarrow> nat \<Rightarrow> nat \<Rightarrow> int \<Rightarrow> nat" where
  "round_half_even b p q x = (if rounds_up b p q x then quotient b p q x + 1 else quotient b p q x)"

text \<open>
  The double with the significand \<open>M\<close> at the exponent \<open>E\<close>: a significand rounded up to
  \<open>2^53\<close> moves to the next exponent, and beyond the exponent 971 the double is an
  infinity.
\<close>

definition pack :: "nat \<Rightarrow> int \<Rightarrow> double" where
  "pack M E =
     (if M = 0 then Zero
      else if M = 2 ^ 53 then (if 971 \<le> E then Infinite else Finite (2 ^ 52) (E + 1))
      else if 971 < E then Infinite
      else Finite M E)"

text \<open>
  The exponent at which \<open>p / q\<close> has a significand of 53 bits, from the estimate \<open>E0\<close>
  given by the lengths of \<open>p\<close> and \<open>q\<close>, which is right or one too small.
\<close>

definition adjust :: "nat \<Rightarrow> nat \<Rightarrow> int \<Rightarrow> int" where
  "adjust p q E0 = (if 2 ^ 53 \<le> quotient 2 p q E0 then E0 + 1 else E0)"

text \<open>
  The double nearest to the fraction \<open>p / q\<close> (round to nearest, ties to even); below the
  exponent \<open>-1074\<close> the double is subnormal or zero.
\<close>

definition round_at :: "nat \<Rightarrow> nat \<Rightarrow> int \<Rightarrow> double" where
  "round_at p q E = pack (round_half_even 2 p q E) E"

definition to_double :: "nat \<Rightarrow> nat \<Rightarrow> double" where
  "to_double p q =
     (if p = 0 then Zero
      else round_at p q (max (adjust p q (int (bit_length p) - int (bit_length q) - 53)) (- 1074)))"

text \<open>The double of the Number \<open>Dec s m e\<close>, without its sign.\<close>

definition num_double :: "nat \<Rightarrow> int \<Rightarrow> double" where
  "num_double m e = to_double (fst (shift 10 m 1 (- e))) (snd (shift 10 m 1 (- e)))"

text \<open>The \<open>n\<close> with \<open>10^(n-1) \<le> p / q < 10^n\<close>, for a positive fraction.\<close>

definition magnitude :: "nat \<Rightarrow> nat \<Rightarrow> int" where
  "magnitude p q =
     (if q \<le> p then int (length (decimal (p div q)))
      else if q \<le> p * 10 ^ (length (decimal q) - length (decimal p))
      then 1 - int (length (decimal q) - length (decimal p))
      else - int (length (decimal q) - length (decimal p)))"

text \<open>
  The digits of \<open>Number.prototype.toString\<close> for the double \<open>d\<close> of value \<open>p / q\<close> and
  magnitude \<open>n\<close>: the least number \<open>k\<close> of digits, taken from \<open>ks\<close> in turn, for which an
  integer \<open>s\<close> of \<open>k\<close> digits has \<open>d\<close> as the double nearest to \<open>s * 10^(n-k)\<close>. Of the two
  integers next to \<open>(p / q) / 10^(n-k)\<close> the nearer one is taken where both do. The result
  is \<open>s\<close> and \<open>n\<close> (\<open>1\<close> and \<open>n + 1\<close> where \<open>s\<close> is rounded up to \<open>10^k\<close>).
\<close>

fun shortest :: "int list \<Rightarrow> double \<Rightarrow> nat \<Rightarrow> nat \<Rightarrow> int \<Rightarrow> nat \<times> int" where
  "shortest [] d p q n = (quotient 10 p q (n - 17), n)"
| "shortest (k # ks) d p q n =
     (if num_double (quotient 10 p q (n - k)) (n - k) = d
         \<and> \<not> (num_double (quotient 10 p q (n - k) + 1) (n - k) = d \<and> rounds_up 10 p q (n - k))
      then (quotient 10 p q (n - k), n)
      else if num_double (quotient 10 p q (n - k) + 1) (n - k) = d
      then (if quotient 10 p q (n - k) + 1 = 10 ^ nat k then (1, n + 1)
            else (quotient 10 p q (n - k) + 1, n))
      else shortest ks d p q n)"

declare shortest.simps [simp del]

text \<open>The digits \<open>ds\<close> laid out for the magnitude \<open>n\<close>, as \<open>Number.prototype.toString\<close> does.\<close>

definition layout :: "jsstring \<Rightarrow> int \<Rightarrow> jsstring" where
  "layout ds n =
     (if int (length ds) \<le> n \<and> n \<le> 21 then ds @ replicate (nat (n - int (length ds))) (U CHR ''0'')
      else if 0 < n \<and> n \<le> 21 then take (nat n) ds @ JS ''.'' @ drop (nat n) ds
      else if - 6 < n \<and> n \<le> 0 then JS ''0.'' @ replicate (nat (- n)) (U CHR ''0'') @ ds
      else (if length ds = 1 then ds else take 1 ds @ JS ''.'' @ drop 1 ds) @ JS ''e'' @
           (if 0 \<le> n - 1 then JS ''+'' else JS ''-'') @ decimal (nat \<bar>n - 1\<bar>))"

definition format_number :: "nat \<times> int \<Rightarrow> jsstring" where
  "format_number sn = layout (decimal (fst sn)) (snd sn)"

text \<open>The text of the positive double \<open>d\<close> of value \<open>p / q\<close>.\<close>

definition double_text :: "double \<Rightarrow> nat \<Rightarrow> nat \<Rightarrow> jsstring" where
  "double_text d p q =
     format_number
       (shortest [1, 2, 3, 4, 5, 6, 7, 8, 9, 10, 11, 12, 13, 14, 15, 16, 17] d p q (magnitude p q))"

text \<open>\<open>Number.prototype.toString\<close>, in base ten.\<close>

fun double_toString :: "bool \<Rightarrow> double \<Rightarrow> jsstring" where
  "double_toString neg Zero = JS ''0''"
| "double_toString neg Infinite = (if neg then JS ''-Infinity'' else JS ''Infinity'')"
| "double_toString neg (Finite M E) =
     (if neg then JS ''-'' else []) @
     double_text (Finite M E) (fst (shift 2 M 1 (- E))) (snd (shift 2 M 1 (- E)))"

fun number_toString :: "jsnum \<Rightarrow> jsstring" where
  "number_toString NaN = JS ''NaN''"
| "number_toString (Dec neg m e) = double_toString neg (num_double m e)"

fun num_is_zero :: "jsnum \<Rightarrow> bool" where
  "num_is_zero NaN = False"
| "num_is_zero (Dec neg m e) = (num_double m e = Zero)"

fun num_is_finite :: "jsnum \<Rightarrow> bool" where
  "num_is_finite NaN = False"
| "num_is_finite (Dec neg m e) = (num_double m e \<noteq> Infinite)"

text \<open>\<open>ToBoolean\<close>, the test of \<open>if\<close>, \<open>!\<close> and \<open>assert.ok\<close>.\<close>

fun js_truthy :: "jsval \<Rightarrow> bool" where
  "js_truthy JUndefined = False"
| "js_truthy JNull = False"
| "js_truthy (JBool b) = b"
| "js_truthy (JNumber n) = (n \<noteq> NaN \<and> \<not> num_is_zero n)"
| "js_truthy (JBigInt i) = (i \<noteq> 0)"
| "js_truthy (JString s) = (s \<noteq> [])"
| "js_truthy (JArray vs) = True"
| "js_truthy (JObject ms) = True"

section \<open>\<open>MoneroRpcError\<close>\<close>

record rpc_error =
  message :: jsstring
  code :: "jsnum option"
  errorMessage :: "jsstring option"

text \<open>
  Property access on the values of this model, for the names the program reads
  (\<open>message\<close>, \<open>code\<close>, \<open>error\<close>, \<open>result\<close>): none of them is defined by a built-in
  prototype, so only a plain object that has the key has the property, and reading it
  from any other value gives \<open>undefined\<close>. Reading a property of \<open>null\<close> or \<open>undefined\<close>
  throws; the callers below test for that first.
\<close>

definition has_prop :: "jsstring \<Rightarrow> jsval \<Rightarrow> bool" where
  "has_prop k v = (case v of JObject ms \<Rightarrow> k \<in> fst ` set ms | _ \<Rightarrow> False)"

definition get_prop :: "jsval \<Rightarrow> jsstring \<Rightarrow> jsval" where
  "get_prop v k =
     (case v of
        JObject ms \<Rightarrow> (case map_of ms k of None \<Rightarrow> JUndefined | Some x \<Rightarrow> x)
      | _ \<Rightarrow> JUndefined)"

text \<open>\<^verbatim>\<open>typeof response === 'object' && response != null\<close>\<close>

definition is_object :: "jsval \<Rightarrow> bool" where
  "is_object v = (case v of JArray _ \<Rightarrow> True | JObject _ \<Rightarrow> True | _ \<Rightarrow> False)"

definition is_string :: "jsval \<Rightarrow> bool" where
  "is_string v = (case v of JString _ \<Rightarrow> True | _ \<Rightarrow> False)"

definition is_number :: "jsval \<Rightarrow> bool" where
  "is_number v = (case v of JNumber _ \<Rightarrow> True | _ \<Rightarrow> False)"

definition the_string :: "jsval \<Rightarrow> jsstring" where
  "the_string v = (case v of JString s \<Rightarrow> s | _ \<Rightarrow> [])"

definition the_number :: "jsval \<Rightarrow> jsnum" where
  "the_number v = (case v of JNumber n \<Rightarrow> n | _ \<Rightarrow> NaN)"

text \<open>
  The constructor, statement by statement. \<open>sup\<close> is the argument of the call of
  \<open>super\<close> made so far (\<open>calledSuper\<close> is \<open>sup \<noteq> None\<close>); it becomes the message of the
  error.
\<close>

definition MoneroRpcError :: "jsval \<Rightarrow> rpc_error" where
  "MoneroRpcError response =
     (let sup1 = (if is_string response then Some (the_string response) else None);
          has_message = (is_object response \<and> has_prop (JS ''message'') response
                         \<and> is_string (get_prop response (JS ''message'')));
          sup2 = (if has_message then Some (the_string (get_prop response (JS ''message''))) else sup1);
          has_code = (is_object response \<and> has_prop (JS ''code'') response
                      \<and> is_number (get_prop response (JS ''code'')));
          sup3 = (if has_code \<and> sup2 = None
                  then Some (JS ''Code '' @ number_toString (the_number (get_prop response (JS ''code''))))
                  else sup2);
          sup4 = (if sup3 = None then Some (JS ''Unknown error'') else sup3)
      in \<lparr> message = the sup4,
           code = (if has_code then Some (the_number (get_prop response (JS ''code''))) else None),
           errorMessage = (if has_message then Some (the_string (get_prop response (JS ''message''))) else None) \<rparr>)"

section \<open>The end of the response in \<open>request\<close>\<close>

text \<open>
  \<open>res.statusCode\<close> is a Number, the status of the response as a natural number, or
  absent: \<open>undefined\<close> by its TypeScript type, \<open>null\<close> in Node before a status line is read.
\<close>

datatype status = StatusUndefined | StatusNull | StatusCode nat

text \<open>\<^verbatim>\<open>statusCode == null || statusCode < 200 || statusCode > 299\<close>\<close>

fun bad_status :: "status \<Rightarrow> bool" where
  "bad_status (StatusCode n) = (n < 200 \<or> 299 < n)"
| "bad_status _ = True"

text \<open>The template literal \<^verbatim>\<open>`RPC call failed with status code ${statusCode}`\<close>\<close>

fun status_text :: "status \<Rightarrow> jsstring" where
  "status_text (StatusCode n) = decimal n"
| "status_text StatusUndefined = JS ''undefined''"
| "status_text StatusNull = JS ''null''"

definition status_message :: "status \<Rightarrow> jsstring" where
  "status_message statusCode = JS ''RPC call failed with status code '' @ status_text statusCode"

text \<open>
  What the handler of \<open>end\<close> does to the promise of \<open>request\<close>: it resolves it, rejects it,
  or throws. An exception thrown in the handler is not caught by \<open>request\<close>, so the
  promise is then neither resolved nor rejected.
\<close>

datatype exn = SyntaxError | TypeError | AssertionError

datatype outcome = Resolved jsval | Rejected rpc_error | Thrown exn

text \<open>Lines 127 to 130, on the decoded body.\<close>

definition settle :: "jsval \<Rightarrow> outcome" where
  "settle data =
     (if data = JNull \<or> data = JUndefined then Thrown TypeError
      else if get_prop data (JS ''error'') \<noteq> JNull \<and> get_prop data (JS ''error'') \<noteq> JUndefined
      then Rejected (MoneroRpcError (get_prop data (JS ''error'')))
      else if js_truthy (get_prop data (JS ''result''))
      then Resolved (get_prop data (JS ''result''))
      else Thrown AssertionError)"

definition on_end :: "status \<Rightarrow> jsstring \<Rightarrow> outcome" where
  "on_end statusCode rawData =
     (if bad_status statusCode
      then Rejected (MoneroRpcError (JString (status_message statusCode)))
      else (case decode rawData of
              None \<Rightarrow> Thrown SyntaxError
            | Some data \<Rightarrow> settle data))"

section \<open>\<open>JSON.stringify\<close> and the payload of \<open>request\<close>\<close>

definition hex_digit :: "nat \<Rightarrow> nat" where
  "hex_digit d = (if d < 10 then U CHR ''0'' + d else U CHR ''a'' + (d - 10))"

definition unicode_escape :: "nat \<Rightarrow> jsstring" where
  "unicode_escape c =
     [U CHR 0x5C, U CHR ''u'', hex_digit (c div 4096 mod 16), hex_digit (c div 256 mod 16),
      hex_digit (c div 16 mod 16), hex_digit (c mod 16)]"

text \<open>
  The characters of a string between the quotes: the quote, the backslash and the
  control characters are escaped, and so is a surrogate that is not half of a pair.
\<close>

fun quote_chars :: "jsstring \<Rightarrow> jsstring" where
  "quote_chars [] = []"
| "quote_chars (c # cs) =
     (if c = 0x08 then [U CHR 0x5C, U CHR ''b''] @ quote_chars cs
      else if c = 0x09 then [U CHR 0x5C, U CHR ''t''] @ quote_chars cs
      else if c = 0x0A then [U CHR 0x5C, U CHR ''n''] @ quote_chars cs
      else if c = 0x0C then [U CHR 0x5C, U CHR ''f''] @ quote_chars cs
      else if c = 0x0D then [U CHR 0x5C, U CHR ''r''] @ quote_chars cs
      else if c = U CHR 0x22 then [U CHR 0x5C, U CHR 0x22] @ quote_chars cs
      else if c = U CHR 0x5C then [U CHR 0x5C, U CHR 0x5C] @ quote_chars cs
      else if c < 0x20 then unicode_escape c @ quote_chars cs
      else if 0xD800 \<le> c \<and> c \<le> 0xDBFF then
        (case cs of
           [] \<Rightarrow> unicode_escape c
         | d # ds \<Rightarrow>
             if 0xDC00 \<le> d \<and> d \<le> 0xDFFF then c # d # quote_chars ds
             else unicode_escape c @ quote_chars cs)
      else if 0xDC00 \<le> c \<and> c \<le> 0xDFFF then unicode_escape c @ quote_chars cs
      else c # quote_chars cs)"

definition quote_json :: "jsstring \<Rightarrow> jsstring" where
  "quote_json s = U CHR 0x22 # quote_chars s @ [U CHR 0x22]"

fun join_comma :: "jsstring list \<Rightarrow> jsstring" where
  "join_comma [] = []"
| "join_comma [p] = p"
| "join_comma (p # ps) = p @ U CHR '','' # join_comma ps"

text \<open>
  \<open>JSON.stringify\<close> of a value, with no replacer and no indentation: the text, or
  \<open>None\<close> for a value that has none (\<open>undefined\<close>; such a property is left out of its
  object, such an element is written \<open>null\<close>), or the \<open>TypeError\<close> thrown at the first
  BigInt.
\<close>

fun serialize :: "jsval \<Rightarrow> exn + jsstring option"
  and serialize_members :: "(jsstring \<times> jsval) list \<Rightarrow> exn + jsstring list"
  and serialize_elements :: "jsval list \<Rightarrow> exn + jsstring list" where
  "serialize JUndefined = Inr None"
| "serialize JNull = Inr (Some (JS ''null''))"
| "serialize (JBool b) = Inr (Some (if b then JS ''true'' else JS ''false''))"
| "serialize (JNumber n) = Inr (Some (if num_is_finite n then number_toString n else JS ''null''))"
| "serialize (JBigInt i) = Inl TypeError"
| "serialize (JString s) = Inr (Some (quote_json s))"
| "serialize (JArray vs) =
     (case serialize_elements vs of
        Inl e \<Rightarrow> Inl e
      | Inr ps \<Rightarrow> Inr (Some (JS ''['' @ join_comma ps @ JS '']'')))"
| "serialize (JObject ms) =
     (case serialize_members ms of
        Inl e \<Rightarrow> Inl e
      | Inr ps \<Rightarrow> Inr (Some (JS ''{'' @ join_comma ps @ JS ''}'')))"
| "serialize_members [] = Inr []"
| "serialize_members ((k, v) # ms) =
     (case serialize v of
        Inl e \<Rightarrow> Inl e
      | Inr None \<Rightarrow> serialize_members ms
      | Inr (Some t) \<Rightarrow>
          (case serialize_members ms of
             Inl e \<Rightarrow> Inl e
           | Inr ps \<Rightarrow> Inr ((quote_json k @ JS '':'' @ t) # ps)))"
| "serialize_elements [] = Inr []"
| "serialize_elements (v # vs) =
     (case serialize v of
        Inl e \<Rightarrow> Inl e
      | Inr t \<Rightarrow>
          (case serialize_elements vs of
             Inl e \<Rightarrow> Inl e
           | Inr ps \<Rightarrow> Inr ((case t of None \<Rightarrow> JS ''null'' | Some x \<Rightarrow> x) # ps)))"

text \<open>Lines 74 to 79: the envelope and its text. \<open>params\<close> is \<open>JUndefined\<close> when the caller gives none.\<close>

definition envelope :: "jsstring \<Rightarrow> jsval \<Rightarrow> jsval" where
  "envelope method params =
     JObject [(JS ''jsonrpc'', JString (JS ''2.0'')), (JS ''id'', JString (JS ''0'')),
              (JS ''method'', JString method), (JS ''params'', params)]"

definition payload :: "jsstring \<Rightarrow> jsval \<Rightarrow> exn + jsstring option" where
  "payload method params = serialize (envelope method params)"

section \<open>Evaluating the model on a concrete body\<close>

lemmas decode_eval =
  stringifyInts_def match_here_def lookbehind_def lookahead_def nondigit_opt_eol_def
  at_eol_def is_digit_def is_line_terminator_def lex_number_def lex_frac_def lex_exp_def
  is_ws_def nat_of_digits_def digit_val_def Let_def json_parse_def decode_def reviver_def
  obj_put_def is_array_index_def hex4_def hex_val_def unescape_def

lemmas decimal_eval =
  decimal.simps [of 0] decimal.simps [of "Suc 0"] decimal.simps [of "numeral k"] for k

lemmas bit_length_eval =
  bit_length.simps [of 0] bit_length.simps [of "Suc 0"] bit_length.simps [of "numeral k"] for k

lemmas shortest_eval =
  shortest.simps(1) shortest.simps(2) [of "numeral k"] shortest.simps(2) [of 1] for k

lemmas number_eval =
  num_double_def to_double_def round_at_def adjust_def pack_def round_half_even_def
  rounds_up_def quotient_def shift_def magnitude_def double_text_def format_number_def
  layout_def decimal_eval bit_length_eval shortest_eval numeral_2_eq_2 [symmetric]

lemma MoneroRpcError_string:
  "MoneroRpcError (JString s) = \<lparr>message = s, code = None, errorMessage = None\<rparr>"
  by (simp add: MoneroRpcError_def is_string_def is_object_def the_string_def)

section \<open>Lemmas on the rewriting of an integer field\<close>

subsection \<open>Decimal numerals\<close>


lemma decimal_digits: "c \<in> set (decimal n) \<Longrightarrow> is_digit c"
proof (induction n arbitrary: c rule: decimal.induct)
  case (1 n)
  show ?case
  proof (cases "n < 10")
    case True
    with "1.prems" show ?thesis
      by (subst (asm) decimal.simps) (simp add: is_digit_def)
  next
    case False
    from "1.prems" have "c \<in> set (decimal (n div 10)) \<or> c = U CHR ''0'' + n mod 10"
      using False by (subst (asm) decimal.simps) auto
    then show ?thesis
    proof
      assume "c \<in> set (decimal (n div 10))"
      with False "1.IH" show ?thesis by simp
    next
      assume "c = U CHR ''0'' + n mod 10"
      moreover have "n mod 10 < 10" by simp
      ultimately show ?thesis by (simp add: is_digit_def)
    qed
  qed
qed

lemma nat_of_digits_snoc:
  "nat_of_digits (ds @ [c]) = 10 * nat_of_digits ds + digit_val c"
  by (simp add: nat_of_digits_def)

lemma nat_of_digits_decimal: "nat_of_digits (decimal n) = n"
proof (induction n rule: decimal.induct)
  case (1 n)
  show ?case
  proof (cases "n < 10")
    case True
    then show ?thesis
      by (subst decimal.simps) (simp add: nat_of_digits_def digit_val_def)
  next
    case False
    with "1.IH" have "nat_of_digits (decimal (n div 10)) = n div 10" by simp
    with False show ?thesis
      by (subst decimal.simps) (simp add: nat_of_digits_snoc digit_val_def)
  qed
qed

subsection \<open>A run of digits\<close>





subsection \<open>Text that is copied\<close>






subsection \<open>The key of a field\<close>









section \<open>Facts about the handler after decoding\<close>

lemma get_prop_object:
  "get_prop (JObject ms) k = (case map_of ms k of None \<Rightarrow> JUndefined | Some x \<Rightarrow> x)"
  by (simp add: get_prop_def)

lemma map_of_None_keys: "k \<notin> fst ` set ms \<Longrightarrow> map_of ms k = None"
  by (simp add: map_of_eq_None_iff)

lemma map_of_Some_keys: "map_of ms k = Some v \<Longrightarrow> k \<in> fst ` set ms"
  by (metis map_of_eq_None_iff option.distinct(1))

lemma on_end_success:
  "200 \<le> n \<Longrightarrow> n \<le> 299 \<Longrightarrow> decode rawData = Some data \<Longrightarrow>
   on_end (StatusCode n) rawData = settle data"
  by (simp add: on_end_def)

lemma MoneroRpcError_code_message:
  assumes "map_of es (JS ''message'') = Some (JString m)"
    and "map_of es (JS ''code'') = Some (JNumber c)"
  shows "MoneroRpcError (JObject es) = \<lparr>message = m, code = Some c, errorMessage = Some m\<rparr>"
  using assms map_of_Some_keys [OF assms(1)] map_of_Some_keys [OF assms(2)]
  by (simp add: MoneroRpcError_def Let_def is_string_def is_object_def is_number_def
      the_string_def the_number_def has_prop_def get_prop_object)

section \<open>Strings that hold digits followed by the letter n\<close>

text \<open>
  Claim C2. A response in the layout of \<open>monero-wallet-rpc\<close> whose result has two string
  fields, the address of the README and the label \<open>123n\<close>. The prepass leaves the body as
  it is, so both strings are the server's own; the reviver still turns the address into
  the BigInt 5 (its first digits followed by n are \<open>5n\<close>) and the label into the BigInt
  123.
\<close>


theorem genuine_strings_become_bigint:
  \<open>on_end (StatusCode 200)
     (JS ''{\<newline>  "id": "0",\<newline>  "jsonrpc": "2.0",\<newline>  "result": {\<newline>    "address": "52R4RNjVjPn6Aj3SVA1yzZQStC8a4StYTUiuAtLjBPk92A76vrCD2pcPmV51Td8X56Gb1smNTaiEadc4gurjQ5nJBUuVCFB",\<newline>    "label": "123n"\<newline>  }\<newline>}'')
   = Resolved (JObject [(JS ''address'', JBigInt 5), (JS ''label'', JBigInt 123)])
   \<and> stringifyInts
     (JS ''{\<newline>  "id": "0",\<newline>  "jsonrpc": "2.0",\<newline>  "result": {\<newline>    "address": "52R4RNjVjPn6Aj3SVA1yzZQStC8a4StYTUiuAtLjBPk92A76vrCD2pcPmV51Td8X56Gb1smNTaiEadc4gurjQ5nJBUuVCFB",\<newline>    "label": "123n"\<newline>  }\<newline>}'')
   = JS ''{\<newline>  "id": "0",\<newline>  "jsonrpc": "2.0",\<newline>  "result": {\<newline>    "address": "52R4RNjVjPn6Aj3SVA1yzZQStC8a4StYTUiuAtLjBPk92A76vrCD2pcPmV51Td8X56Gb1smNTaiEadc4gurjQ5nJBUuVCFB",\<newline>    "label": "123n"\<newline>  }\<newline>}''\<close>
  by (simp add: on_end_def settle_def get_prop_def decode_eval)

section \<open>The balance response\<close>

text \<open>
  Claim C3, as the claim states it, is false. The body of the claim is one line with no
  space after a colon, so the prepass finds nothing to rewrite and the three integers
  are decoded as Numbers.
\<close>

theorem compact_balance_is_number:
  \<open>on_end (StatusCode 200)
     (JS ''{"jsonrpc":"2.0","id":"0","result":{"balance":1125125151521,"unlocked_balance":1125125151521,"multisig_import_needed":false,"per_subaddress":[{"balance":1125125151521}]}}'')
   = Resolved (JObject
       [(JS ''balance'', JNumber (Dec False 1125125151521 0)),
        (JS ''unlocked_balance'', JNumber (Dec False 1125125151521 0)),
        (JS ''multisig_import_needed'', JBool False),
        (JS ''per_subaddress'', JArray [JObject [(JS ''balance'', JNumber (Dec False 1125125151521 0))]])])\<close>
  by (simp add: on_end_def settle_def get_prop_def decode_eval)

text \<open>
  Claim C3, amended. With the same envelope written one field per line, as
  \<open>monero-wallet-rpc\<close> writes it, the call resolves with \<open>balance\<close> and the \<open>balance\<close> of the
  first subaddress equal to the BigInt 1125125151521 and \<open>multisig_import_needed\<close> equal
  to \<open>false\<close>.
\<close>

theorem balance_by_lines_is_bigint:
  \<open>on_end (StatusCode 200)
     (JS ''{\<newline>  "jsonrpc": "2.0",\<newline>  "id": "0",\<newline>  "result": {\<newline>    "balance": 1125125151521,\<newline>    "unlocked_balance": 1125125151521,\<newline>    "multisig_import_needed": false,\<newline>    "per_subaddress": [{\<newline>      "balance": 1125125151521\<newline>    }]\<newline>  }\<newline>}'')
   = Resolved (JObject
       [(JS ''balance'', JBigInt 1125125151521),
        (JS ''unlocked_balance'', JBigInt 1125125151521),
        (JS ''multisig_import_needed'', JBool False),
        (JS ''per_subaddress'', JArray [JObject [(JS ''balance'', JBigInt 1125125151521)]])])\<close>
  by (simp add: on_end_def settle_def get_prop_def decode_eval)

section \<open>Integer literals in a response\<close>






section \<open>Responses with a status outside 200 to 299\<close>

text \<open>
  Claim C4. For every response whose status code is outside the range 200 to 299, the call is
  rejected with a structured error whose message is \<open>RPC call failed with status code\<close>
  followed by the decimal numeral of that status code: the digits after the prefix are decimal
  digits and read back as the status code itself. An absent status (\<open>undefined\<close> or
  \<open>null\<close>) is rejected with the same prefix followed by \<open>undefined\<close> or
  \<open>null\<close>. The outcome is the same for every body: the body is not decoded, so a body
  that is not JSON does not make the handler throw.
\<close>

theorem non_success_status_rejects:
  "(n < 200 \<or> 299 < n \<longrightarrow>
      on_end (StatusCode n) rawData =
        Rejected \<lparr>message = JS ''RPC call failed with status code '' @ decimal n,
                  code = None, errorMessage = None\<rparr>
      \<and> nat_of_digits (decimal n) = n \<and> (\<forall>c\<in>set (decimal n). is_digit c))
   \<and> on_end StatusUndefined rawData =
        Rejected \<lparr>message = JS ''RPC call failed with status code undefined'',
                  code = None, errorMessage = None\<rparr>
   \<and> on_end StatusNull rawData =
        Rejected \<lparr>message = JS ''RPC call failed with status code null'',
                  code = None, errorMessage = None\<rparr>"
  by (simp add: on_end_def MoneroRpcError_string status_message_def nat_of_digits_decimal
      decimal_digits)

text \<open>
  Status 500 with a body that \<open>JSON.parse\<close> would refuse, and the statuses 404 and 199.
\<close>

theorem non_success_status_rejects_witness:
  "on_end (StatusCode 500) (JS ''<html>Internal Server Error</html>'') =
     Rejected \<lparr>message = JS ''RPC call failed with status code 500'', code = None, errorMessage = None\<rparr>
   \<and> decode (JS ''<html>Internal Server Error</html>'') = None
   \<and> on_end (StatusCode 404) (JS ''{}'') =
     Rejected \<lparr>message = JS ''RPC call failed with status code 404'', code = None, errorMessage = None\<rparr>
   \<and> on_end (StatusCode 199) (JS ''{}'') =
     Rejected \<lparr>message = JS ''RPC call failed with status code 199'', code = None, errorMessage = None\<rparr>"
proof -
  have d: "decode (JS ''<html>Internal Server Error</html>'') = None"
    by (simp add: decode_eval)
  have a: "on_end (StatusCode 500) (JS ''<html>Internal Server Error</html>'') =
     Rejected \<lparr>message = JS ''RPC call failed with status code 500'', code = None, errorMessage = None\<rparr>"
    using non_success_status_rejects [of 500 "JS ''<html>Internal Server Error</html>''"]
    by (simp add: decimal_eval)
  have b: "on_end (StatusCode 404) (JS ''{}'') =
     Rejected \<lparr>message = JS ''RPC call failed with status code 404'', code = None, errorMessage = None\<rparr>"
    using non_success_status_rejects [of 404 "JS ''{}''"]
    by (simp add: decimal_eval)
  have c: "on_end (StatusCode 199) (JS ''{}'') =
     Rejected \<lparr>message = JS ''RPC call failed with status code 199'', code = None, errorMessage = None\<rparr>"
    using non_success_status_rejects [of 199 "JS ''{}''"]
    by (simp add: decimal_eval)
  from a d b c show ?thesis by blast
qed

section \<open>A response that carries an error\<close>

text \<open>
  When the status is in 200 to 299 and the decoded envelope has an \<open>error\<close> field that is
  neither \<open>null\<close> nor \<open>undefined\<close>, the call is rejected with the
  \<open>MoneroRpcError\<close> built from the decoded value; when that decoded value is an object
  whose \<open>message\<close> is a String and whose \<open>code\<close> is a Number, the error carries
  that message and that code.
\<close>

lemma error_field_rejects:
  assumes "200 \<le> n" and "n \<le> 299"
    and "decode rawData = Some (JObject ms)"
    and "map_of ms (JS ''error'') = Some e"
    and "e \<noteq> JNull" and "e \<noteq> JUndefined"
  shows "on_end (StatusCode n) rawData = Rejected (MoneroRpcError e)
         \<and> (\<forall>es m c. e = JObject es \<and> map_of es (JS ''message'') = Some (JString m)
                      \<and> map_of es (JS ''code'') = Some (JNumber c)
               \<longrightarrow> MoneroRpcError e = \<lparr>message = m, code = Some c, errorMessage = Some m\<rparr>)"
proof -
  have "settle (JObject ms) = Rejected (MoneroRpcError e)"
    using assms(4-6) by (simp add: settle_def get_prop_object)
  with assms(1-3) show ?thesis
    by (auto simp: on_end_success MoneroRpcError_code_message)
qed

text \<open>
  The decoder does not always hand the constructor a Number and a String. In a body written
  one field per line, an error code made of digits only is rewritten by \<open>stringifyInts\<close> and
  revived as a BigInt; a message that contains digits followed by \<open>n\<close> is revived as a
  BigInt as well.
\<close>

lemma decode_denied:
  \<open>decode (JS ''{"jsonrpc":"2.0","id":"0","error":{"code":-1,"message":"denied"}}'') =
     Some (JObject [(JS ''jsonrpc'', JString (JS ''2.0'')), (JS ''id'', JString (JS ''0'')),
       (JS ''error'', JObject [(JS ''code'', JNumber (Dec True 1 0)),
                               (JS ''message'', JString (JS ''denied''))])])\<close>
  by (simp add: decode_eval)

lemma decode_error_by_lines:
  \<open>decode (JS ''{\<newline>  "error": {\<newline>    "code": 5,\<newline>    "message": "denied"\<newline>  },\<newline>  "id": "0",\<newline>  "jsonrpc": "2.0"\<newline>}'') =
     Some (JObject [(JS ''error'', JObject [(JS ''code'', JBigInt 5),
                                            (JS ''message'', JString (JS ''denied''))]),
                    (JS ''id'', JString (JS ''0'')), (JS ''jsonrpc'', JString (JS ''2.0''))])\<close>
  by (simp add: decode_eval)

lemma decode_denied_1n:
  \<open>decode (JS ''{"jsonrpc":"2.0","id":"0","error":{"code":-1,"message":"denied 1n"}}'') =
     Some (JObject [(JS ''jsonrpc'', JString (JS ''2.0'')), (JS ''id'', JString (JS ''0'')),
       (JS ''error'', JObject [(JS ''code'', JNumber (Dec True 1 0)),
                               (JS ''message'', JBigInt 1)])])\<close>
  by (simp add: decode_eval)

lemma number_toString_minus_1: "number_toString (Dec True 1 0) = JS ''-1''"
  by (simp add: number_eval)

lemmas settle_eval = on_end_def settle_def get_prop_def MoneroRpcError_def has_prop_def
  is_object_def is_string_def is_number_def the_string_def the_number_def Let_def

lemma on_end_error_by_lines:
  \<open>on_end (StatusCode 200)
      (JS ''{\<newline>  "error": {\<newline>    "code": 5,\<newline>    "message": "denied"\<newline>  },\<newline>  "id": "0",\<newline>  "jsonrpc": "2.0"\<newline>}'')
    = Rejected \<lparr>message = JS ''denied'', code = None, errorMessage = Some (JS ''denied'')\<rparr>\<close>
  using decode_error_by_lines by (simp add: settle_eval)

lemma on_end_denied_1n:
  \<open>on_end (StatusCode 200)
      (JS ''{"jsonrpc":"2.0","id":"0","error":{"code":-1,"message":"denied 1n"}}'')
    = Rejected \<lparr>message = JS ''Code -1'', code = Some (Dec True 1 0), errorMessage = None\<rparr>\<close>
  using decode_denied_1n number_toString_minus_1
  by (simp add: settle_eval del: number_toString.simps)

lemma on_end_denied:
  \<open>on_end (StatusCode 200)
      (JS ''{"jsonrpc":"2.0","id":"0","error":{"code":-1,"message":"denied"}}'')
    = Rejected \<lparr>message = JS ''denied'', code = Some (Dec True 1 0), errorMessage = Some (JS ''denied'')\<rparr>\<close>
  using decode_denied by (simp add: settle_eval)

text \<open>
  Claim C5. A response with status 200 and an \<open>error\<close> object is rejected, but the
  structured error is not always built from that object's code and message. For the body
  \<^verbatim>\<open>{"jsonrpc":"2.0","id":"0","error":{"code":-1,"message":"denied"}}\<close> the error
  has code \<open>-1\<close> and message \<open>denied\<close>. For the same kind of envelope written one field
  per line with \<^verbatim>\<open>"code": 5\<close>, the error has the message \<open>denied\<close> and no code
  at all. For the first body with the message \<open>denied 1n\<close>, the error has the message
  \<open>Code -1\<close> and no \<open>errorMessage\<close>: the server's message is lost.
\<close>

theorem error_code_or_message_lost:
  \<open>on_end (StatusCode 200)
      (JS ''{\<newline>  "error": {\<newline>    "code": 5,\<newline>    "message": "denied"\<newline>  },\<newline>  "id": "0",\<newline>  "jsonrpc": "2.0"\<newline>}'')
    = Rejected \<lparr>message = JS ''denied'', code = None, errorMessage = Some (JS ''denied'')\<rparr>
   \<and> on_end (StatusCode 200)
      (JS ''{"jsonrpc":"2.0","id":"0","error":{"code":-1,"message":"denied 1n"}}'')
    = Rejected \<lparr>message = JS ''Code -1'', code = Some (Dec True 1 0), errorMessage = None\<rparr>
   \<and> on_end (StatusCode 200)
      (JS ''{"jsonrpc":"2.0","id":"0","error":{"code":-1,"message":"denied"}}'')
    = Rejected \<lparr>message = JS ''denied'', code = Some (Dec True 1 0), errorMessage = Some (JS ''denied'')\<rparr>\<close>
  using on_end_error_by_lines on_end_denied_1n on_end_denied by blast

section \<open>A response with neither result nor error\<close>

text \<open>
  Claim C6. When the status is in 200 to 299 and the decoded envelope is an object with
  neither a \<open>result\<close> nor an \<open>error\<close> field, the assertion \<open>ok(data.result)\<close> throws: the
  call is not resolved.
\<close>

theorem neither_result_nor_error_asserts:
  assumes "200 \<le> n" and "n \<le> 299"
    and "decode rawData = Some (JObject ms)"
    and "JS ''result'' \<notin> fst ` set ms"
    and "JS ''error'' \<notin> fst ` set ms"
  shows "on_end (StatusCode n) rawData = Thrown AssertionError"
  using assms
  by (simp add: on_end_success settle_def get_prop_object map_of_None_keys)

lemma decode_bare_envelope:
  \<open>decode (JS ''{"jsonrpc":"2.0","id":"0"}'') =
     Some (JObject [(JS ''jsonrpc'', JString (JS ''2.0'')), (JS ''id'', JString (JS ''0''))])\<close>
  by (simp add: decode_eval)

theorem neither_result_nor_error_asserts_witness:
  \<open>on_end (StatusCode 200) (JS ''{"jsonrpc":"2.0","id":"0"}'') = Thrown AssertionError\<close>
  using neither_result_nor_error_asserts [OF _ _ decode_bare_envelope, of 200]
  by simp

section \<open>The message of a \<open>MoneroRpcError\<close>\<close>

lemma has_prop_object: "has_prop k (JObject ms) = (map_of ms k \<noteq> None)"
  by (simp add: has_prop_def map_of_eq_None_iff)

lemma MoneroRpcError_object:
  "MoneroRpcError (JObject ms) =
     \<lparr>message =
        (case map_of ms (JS ''message'') of
           Some (JString m) \<Rightarrow> m
         | _ \<Rightarrow> (case map_of ms (JS ''code'') of
                  Some (JNumber c) \<Rightarrow> JS ''Code '' @ number_toString c
                | _ \<Rightarrow> JS ''Unknown error'')),
      code = (case map_of ms (JS ''code'') of Some (JNumber c) \<Rightarrow> Some c | _ \<Rightarrow> None),
      errorMessage = (case map_of ms (JS ''message'') of Some (JString m) \<Rightarrow> Some m | _ \<Rightarrow> None)\<rparr>"
  by (simp add: MoneroRpcError_def Let_def is_string_def is_object_def is_number_def
      the_string_def the_number_def has_prop_object get_prop_object
      split: option.split jsval.split)

lemma MoneroRpcError_other:
  "(\<forall>s. v \<noteq> JString s) \<Longrightarrow> (\<forall>ms. v \<noteq> JObject ms) \<Longrightarrow>
   MoneroRpcError v = \<lparr>message = JS ''Unknown error'', code = None, errorMessage = None\<rparr>"
  by (cases v)
     (simp_all add: MoneroRpcError_def Let_def is_string_def is_object_def is_number_def
        has_prop_def get_prop_def)

text \<open>
  Claim C7, as the claim states it, is false for the empty string: the message of the
  error is then empty.
\<close>

theorem MoneroRpcError_empty_message:
  "message (MoneroRpcError (JString [])) = []"
  by (simp add: MoneroRpcError_string)

text \<open>
  Claim C7, amended. The message is the string for a string; the \<open>message\<close> of an object
  whose \<open>message\<close> is a string (recorded as \<open>errorMessage\<close>); \<open>Code\<close> and the code for an
  object with a numeric \<open>code\<close> and no string \<open>message\<close>; and \<open>Unknown error\<close> for every
  other value. A numeric \<open>code\<close> is recorded in each case. The message is empty only when
  the string given, or the \<open>message\<close> of the object given, is the empty string.
\<close>

theorem MoneroRpcError_variants:
  "message (MoneroRpcError v) =
     (case v of
        JString s \<Rightarrow> s
      | JObject ms \<Rightarrow>
          (case map_of ms (JS ''message'') of
             Some (JString m) \<Rightarrow> m
           | _ \<Rightarrow> (case map_of ms (JS ''code'') of
                    Some (JNumber c) \<Rightarrow> JS ''Code '' @ number_toString c
                  | _ \<Rightarrow> JS ''Unknown error''))
      | _ \<Rightarrow> JS ''Unknown error'')
   \<and> errorMessage (MoneroRpcError v) =
     (case v of
        JObject ms \<Rightarrow> (case map_of ms (JS ''message'') of Some (JString m) \<Rightarrow> Some m | _ \<Rightarrow> None)
      | _ \<Rightarrow> None)
   \<and> code (MoneroRpcError v) =
     (case v of
        JObject ms \<Rightarrow> (case map_of ms (JS ''code'') of Some (JNumber c) \<Rightarrow> Some c | _ \<Rightarrow> None)
      | _ \<Rightarrow> None)
   \<and> (message (MoneroRpcError v) = [] \<longleftrightarrow>
        v = JString [] \<or> (\<exists>ms. v = JObject ms \<and> map_of ms (JS ''message'') = Some (JString [])))"
proof (cases v)
  case (JString s)
  then show ?thesis by (simp add: MoneroRpcError_string)
next
  case (JObject ms)
  then show ?thesis
    by (simp add: MoneroRpcError_object split: option.split jsval.split)
qed (simp_all add: MoneroRpcError_other)

theorem MoneroRpcError_variants_witness:
  "message (MoneroRpcError (JObject [(JS ''code'', JNumber (Dec True 5 0))])) = JS ''Code -5''
   \<and> message (MoneroRpcError (JArray [])) = JS ''Unknown error''
   \<and> message (MoneroRpcError (JObject [(JS ''message'', JString [])])) = []"
  using MoneroRpcError_variants [of "JObject [(JS ''code'', JNumber (Dec True 5 0))]"]
    MoneroRpcError_variants [of "JArray []"]
    MoneroRpcError_variants [of "JObject [(JS ''message'', JString [])]"]
  by (simp add: number_eval)

section \<open>A BigInt among the parameters\<close>

lemma serialize_only_TypeError:
  "serialize v = Inl e \<Longrightarrow> e = TypeError"
  and serialize_members_only_TypeError:
  "serialize_members ms = Inl e \<Longrightarrow> e = TypeError"
  and serialize_elements_only_TypeError:
  "serialize_elements vs = Inl e \<Longrightarrow> e = TypeError"
  by (induction v and ms and vs rule: serialize_serialize_members_serialize_elements.induct)
     (auto split: sum.splits option.splits)

lemma serialize_members_bigint:
  "serialize_members (ms @ (k, JBigInt i) # ms') = Inl TypeError"
proof (induction ms)
  case Nil
  show ?case by simp
next
  case (Cons m ms)
  obtain k' v where m: "m = (k', v)" by (cases m)
  show ?case
  proof (cases "serialize v")
    case (Inl e)
    then have "e = TypeError" by (rule serialize_only_TypeError)
    with Inl m show ?thesis by simp
  next
    case (Inr t)
    with m Cons.IH show ?thesis by (cases t) simp_all
  qed
qed

text \<open>
  Claim C8. Whatever the method, a parameter bag with a BigInt among its values makes
  \<open>JSON.stringify\<close> throw a \<open>TypeError\<close>: no text is produced, and the value is not written
  as a numeric literal.
\<close>

theorem bigint_parameter_throws:
  "payload method (JObject (ms @ (k, JBigInt i) # ms')) = Inl TypeError"
  by (simp add: payload_def envelope_def quote_json_def serialize_members_bigint)

text \<open>
  \<open>getBalance(0n)\<close> calls \<open>request\<close> with the parameter bag
  \<open>{account_index: 0n, address_indices: undefined, all_accounts: undefined, strict: undefined}\<close>.
\<close>

theorem bigint_parameter_throws_at_getBalance:
  "payload (JS ''get_balance'')
     (JObject [(JS ''account_index'', JBigInt 0), (JS ''address_indices'', JUndefined),
               (JS ''all_accounts'', JUndefined), (JS ''strict'', JUndefined)])
   = Inl TypeError"
  using bigint_parameter_throws [of "JS ''get_balance''" "[]" "JS ''account_index''" 0
      "[(JS ''address_indices'', JUndefined), (JS ''all_accounts'', JUndefined), (JS ''strict'', JUndefined)]"]
  by simp

section \<open>The envelope of a request\<close>

lemma payload_text:
  "payload method params =
     (case serialize params of
        Inl e \<Rightarrow> Inl e
      | Inr None \<Rightarrow>
          Inr (Some (JS ''{\"jsonrpc\":\"2.0\",\"id\":\"0\",\"method\":'' @ quote_json method @ JS ''}''))
      | Inr (Some t) \<Rightarrow>
          Inr (Some (JS ''{\"jsonrpc\":\"2.0\",\"id\":\"0\",\"method\":'' @ quote_json method @
                     JS '',\"params\":'' @ t @ JS ''}'')))"
  by (simp add: payload_def envelope_def quote_json_def split: sum.split option.split)

text \<open>
  Claim C9. For every method name and every parameter bag the envelope is the object with
  \<open>jsonrpc\<close> equal to \<open>2.0\<close>, \<open>id\<close> equal to \<open>0\<close>, the method name and the parameters, in
  this order; its text starts with the same \<open>jsonrpc\<close> and \<open>id\<close> on every call, and leaves
  \<open>params\<close> out when the caller gives none.
\<close>

theorem envelope_is_fixed:
  "envelope method params =
     JObject [(JS ''jsonrpc'', JString (JS ''2.0'')), (JS ''id'', JString (JS ''0'')),
              (JS ''method'', JString method), (JS ''params'', params)]
   \<and> get_prop (envelope method params) (JS ''jsonrpc'') = JString (JS ''2.0'')
   \<and> get_prop (envelope method params) (JS ''id'') = JString (JS ''0'')
   \<and> get_prop (envelope method params) (JS ''method'') = JString method
   \<and> get_prop (envelope method params) (JS ''params'') = params
   \<and> payload method params =
     (case serialize params of
        Inl e \<Rightarrow> Inl e
      | Inr None \<Rightarrow>
          Inr (Some (JS ''{\"jsonrpc\":\"2.0\",\"id\":\"0\",\"method\":'' @ quote_json method @ JS ''}''))
      | Inr (Some t) \<Rightarrow>
          Inr (Some (JS ''{\"jsonrpc\":\"2.0\",\"id\":\"0\",\"method\":'' @ quote_json method @
                     JS '',\"params\":'' @ t @ JS ''}'')))"
  using payload_text [of "method" "params"]
  by (simp add: envelope_def get_prop_def)

theorem envelope_is_fixed_witness:
  "payload (JS ''get_balance'')
     (JObject [(JS ''account_index'', JNumber (Dec False 0 0)), (JS ''address_indices'', JUndefined),
               (JS ''all_accounts'', JBool True), (JS ''strict'', JUndefined)])
   = Inr (Some (JS ''{\"jsonrpc\":\"2.0\",\"id\":\"0\",\"method\":\"get_balance\",\"params\":{\"account_index\":0,\"all_accounts\":true}}''))
   \<and> payload (JS ''store'') JUndefined
   = Inr (Some (JS ''{\"jsonrpc\":\"2.0\",\"id\":\"0\",\"method\":\"store\"}''))"
  using envelope_is_fixed [of "JS ''get_balance''"
      "JObject [(JS ''account_index'', JNumber (Dec False 0 0)), (JS ''address_indices'', JUndefined),
               (JS ''all_accounts'', JBool True), (JS ''strict'', JUndefined)]"]
    envelope_is_fixed [of "JS ''store''" JUndefined]
  by (simp add: quote_json_def number_eval)

section \<open>A result that is present and falsy\<close>

text \<open>
  Claim C10. When the status is in 200 to 299 and the decoded envelope has no \<open>error\<close>
  field and a \<open>result\<close> field whose value is falsy, the assertion \<open>ok(data.result)\<close>
  throws and the call is not resolved with that value; the handler does exactly what it
  does on the same envelope with the \<open>result\<close> field removed.
\<close>

theorem falsy_result_asserts:
  assumes "200 \<le> n" and "n \<le> 299"
    and "decode rawData = Some (JObject ms)"
    and "JS ''error'' \<notin> fst ` set ms"
    and "map_of ms (JS ''result'') = Some r"
    and "\<not> js_truthy r"
  shows "on_end (StatusCode n) rawData = Thrown AssertionError
         \<and> settle (JObject ms) = settle (JObject (filter (\<lambda>m. fst m \<noteq> JS ''result'') ms))"
proof -
  have e: "map_of (filter (\<lambda>m. fst m \<noteq> JS ''result'') ms) (JS ''error'') = None"
    using assms(4) by (auto simp: map_of_eq_None_iff)
  have r: "map_of (filter (\<lambda>m. fst m \<noteq> JS ''result'') ms) (JS ''result'') = None"
    by (auto simp: map_of_eq_None_iff)
  have "settle (JObject ms) = Thrown AssertionError"
    using assms(4-6) by (simp add: settle_def get_prop_object map_of_None_keys)
  moreover have "settle (JObject (filter (\<lambda>m. fst m \<noteq> JS ''result'') ms)) = Thrown AssertionError"
    using e r by (simp add: settle_def get_prop_object)
  ultimately show ?thesis
    using assms(1-3) by (simp add: on_end_success)
qed

lemma decode_result_false:
  \<open>decode (JS ''{"jsonrpc":"2.0","id":"0","result":false}'') =
     Some (JObject [(JS ''jsonrpc'', JString (JS ''2.0'')), (JS ''id'', JString (JS ''0'')),
                    (JS ''result'', JBool False)])\<close>
  by (simp add: decode_eval)

lemma decode_result_zero:
  \<open>decode (JS ''{"jsonrpc":"2.0","id":"0","result":0}'') =
     Some (JObject [(JS ''jsonrpc'', JString (JS ''2.0'')), (JS ''id'', JString (JS ''0'')),
                    (JS ''result'', JNumber (Dec False 0 0))])\<close>
  by (simp add: decode_eval)

lemma decode_result_empty_string:
  \<open>decode (JS ''{"jsonrpc":"2.0","id":"0","result":""}'') =
     Some (JObject [(JS ''jsonrpc'', JString (JS ''2.0'')), (JS ''id'', JString (JS ''0'')),
                    (JS ''result'', JString [])])\<close>
  by (simp add: decode_eval)

lemma decode_result_null:
  \<open>decode (JS ''{"jsonrpc":"2.0","id":"0","result":null}'') =
     Some (JObject [(JS ''jsonrpc'', JString (JS ''2.0'')), (JS ''id'', JString (JS ''0'')),
                    (JS ''result'', JNull)])\<close>
  by (simp add: decode_eval)

theorem falsy_result_asserts_witness:
  \<open>on_end (StatusCode 200) (JS ''{"jsonrpc":"2.0","id":"0","result":false}'') = Thrown AssertionError
   \<and> on_end (StatusCode 200) (JS ''{"jsonrpc":"2.0","id":"0","result":0}'') = Thrown AssertionError
   \<and> on_end (StatusCode 200) (JS ''{"jsonrpc":"2.0","id":"0","result":""}'') = Thrown AssertionError
   \<and> on_end (StatusCode 200) (JS ''{"jsonrpc":"2.0","id":"0","result":null}'') = Thrown AssertionError\<close>
  using falsy_result_asserts [OF _ _ decode_result_false, of 200 "JBool False"]
    falsy_result_asserts [OF _ _ decode_result_zero, of 200 "JNumber (Dec False 0 0)"]
    falsy_result_asserts [OF _ _ decode_result_empty_string, of 200 "JString []"]
    falsy_result_asserts [OF _ _ decode_result_null, of 200 JNull]
  by (simp add: number_eval)

end
